theory Spec2Isabelle
  imports Complex_Main
begin

section \<open>The telemetry handler of the MPC project (src/main.cpp)\<close>

text \<open>
  The program receives one telemetry event per control tick, moves the waypoints into the
  vehicle's frame, fits a cubic through them, projects the vehicle state over the actuation
  latency, calls \<open>MPC::Solve\<close> and sends the first actuation back. The model starts at
  the decoded telemetry event; the framing of the websocket message and the JSON decoding
  are outside it.

  Numbers: a C++ \<open>double\<close> is modelled as a \<open>real\<close>. Rounding, infinities and NaN are not
  represented, so every equation below is one of exact arithmetic on the expressions that
  the source writes.

  Failures: an \<open>assert\<close> that does not hold, and an index outside a vector, end the tick;
  they are the \<open>Inl\<close> results of the model. An optimizer that gives up is the third error.
\<close>

datatype error = AssertionFailed | IndexOutOfRange | OptimizationFailure

subsection \<open>Constants and unit conversion (lines 13-18)\<close>

definition Lf :: real where
  "Lf = 2.67"

definition deg2rad :: "real \<Rightarrow> real" where
  "deg2rad x = x * pi / 180"

definition rad2deg :: "real \<Rightarrow> real" where
  "rad2deg x = x * 180 / pi"

subsection \<open>polyeval (lines 36-42)\<close>

text \<open>
  The loop runs \<open>i\<close> over \<open>0 ..< coeffs.size()\<close> and adds \<open>coeffs[i] * pow(x, i)\<close> to the
  running result, which starts at 0.
\<close>

definition polyeval :: "real list \<Rightarrow> real \<Rightarrow> real" where
  "polyeval coeffs x0 =
     fold (\<lambda>i result. result + coeffs ! i * x0 ^ i) [0..<length coeffs] 0"

subsection \<open>polyfit (lines 47-66)\<close>

text \<open>
  A matrix is the list of its rows. Row \<open>j\<close> of \<open>A\<close> starts with \<open>A(j, 0) = 1\<close> and is
  extended by \<open>A(j, i + 1) = A(j, i) * xvals(j)\<close> for \<open>i = 0 ..< order\<close>.
\<close>

type_synonym MatrixXd = "real list list"

primrec A_row :: "real \<Rightarrow> nat \<Rightarrow> real list" where
  "A_row xj 0 = [1]"
| "A_row xj (Suc i) = A_row xj i @ [A_row xj i ! i * xj]"

text \<open>
  \<open>A.householderQr().solve(yvals)\<close> is Eigen's; it is a parameter of the model. The two
  assertions come first. \<open>xvals.size()\<close> is a signed index, so \<open>xvals.size() - 1\<close> is \<open>-1\<close>
  for an empty vector and does not wrap.
\<close>

type_synonym qr_solver = "MatrixXd \<Rightarrow> real list \<Rightarrow> real list"

definition polyfit :: "qr_solver \<Rightarrow> real list \<Rightarrow> real list \<Rightarrow> int \<Rightarrow> error + real list" where
  "polyfit householderQr_solve xvals yvals order =
     (if length xvals \<noteq> length yvals then Inl AssertionFailed
      else if \<not> (order \<ge> 1 \<and> order \<le> int (length xvals) - 1) then Inl AssertionFailed
      else Inr (householderQr_solve (map (\<lambda>xj. A_row xj (nat order)) xvals) yvals))"

subsection \<open>The telemetry event and the reply\<close>

record telemetry =
  j_ptsx :: "real list"
  j_ptsy :: "real list"
  j_x :: real
  j_y :: real
  j_psi :: real
  j_speed :: real
  j_steering_angle :: real
  j_throttle :: real

record msgJson =
  m_steering_angle :: real
  m_throttle :: real
  m_mpc_x :: "real list"
  m_mpc_y :: "real list"
  m_next_x :: "real list"
  m_next_y :: "real list"

text \<open>
  The controller object. Of class \<open>MPC\<close> the handler reads the two path members; whatever
  else the object holds is the extension of the record.
\<close>

record MPC =
  next_path_xs :: "real list"
  next_path_ys :: "real list"

type_synonym 'm Solve_fn =
  "'m MPC_scheme \<Rightarrow> real list \<Rightarrow> real list \<Rightarrow> error + (real list \<times> 'm MPC_scheme)"

text \<open>What the handler does to the outside world, in order.\<close>

datatype effect = Cout msgJson | Sleep_for_ms nat | Ws_send msgJson

subsection \<open>Waypoints in the vehicle's frame (lines 99-108)\<close>

text \<open>
  \<open>ptsx_v\<close> has \<open>ptsx.size()\<close> entries and \<open>ptsy_v\<close> has \<open>ptsy.size()\<close>; the loop runs over
  \<open>ptsx.size()\<close> and indexes all four vectors with \<open>i\<close>. Reading \<open>ptsy[i]\<close> and writing
  \<open>ptsy_v[i]\<close> beyond \<open>ptsy.size()\<close> is out of range. The fresh vectors are filled with 0
  here; C++ leaves their contents open, and no entry is read before it is written. The
  \<open>int\<close> counter is taken not to overflow (fewer than \<open>2^31\<close> waypoints).
\<close>

definition transform_step ::
  "real list \<Rightarrow> real list \<Rightarrow> real \<Rightarrow> real \<Rightarrow> real \<Rightarrow> nat \<Rightarrow>
   error + (real list \<times> real list) \<Rightarrow> error + (real list \<times> real list)" where
  "transform_step ptsx ptsy px py psi i acc =
     (case acc of
        Inl e \<Rightarrow> Inl e
      | Inr (ptsx_v, ptsy_v) \<Rightarrow>
          if i < length ptsy then
            (let dx = ptsx ! i - px;
                 dy = ptsy ! i - py
             in Inr (ptsx_v[i := dx * cos psi + dy * sin psi],
                     ptsy_v[i := dy * cos psi - dx * sin psi]))
          else Inl IndexOutOfRange)"

definition to_vehicle ::
  "real list \<Rightarrow> real list \<Rightarrow> real \<Rightarrow> real \<Rightarrow> real \<Rightarrow> error + (real list \<times> real list)" where
  "to_vehicle ptsx ptsy px py psi =
     fold (transform_step ptsx ptsy px py psi) [0..<length ptsx]
       (Inr (replicate (length ptsx) 0, replicate (length ptsy) 0))"

subsection \<open>The state projected over the latency (lines 113-131)\<close>

text \<open>
  The six numbers written into \<open>state\<close>, from the fitted coefficients and the reported
  speed, steering angle and throttle. The caller has checked that \<open>coeffs\<close> has the entries
  1, 2 and 3 that are read here.
\<close>

definition latency_state :: "real list \<Rightarrow> real \<Rightarrow> real \<Rightarrow> real \<Rightarrow> real list" where
  "latency_state coeffs v delta a =
     (let latency = 0.1;
          x_v = 0;
          y_v = 0;
          psi_v = 0;
          cte = polyeval coeffs 0 - y_v;
          epsi = psi_v - arctan (coeffs ! 1 + 2 * coeffs ! 2 * x_v + 3 * coeffs ! 3 * x_v * x_v);
          late_x = x_v + v * cos psi_v * latency;
          late_y = y_v + v * sin psi_v * latency;
          late_psi = psi_v - v / Lf * delta * latency;
          late_v = v + a * latency;
          late_cte = cte + v * sin psi_v * latency;
          late_epsi = late_psi
                      - arctan (coeffs ! 1 + 2 * coeffs ! 2 * late_x + 3 * coeffs ! 3 * late_x * late_x)
                      - (v / Lf * delta * latency)
      in [late_x, late_y, late_psi, late_v, late_cte, late_epsi])"

text \<open>
  Everything the handler computes before it calls the optimizer: the waypoints in the
  vehicle's frame, the coefficients and the state.
\<close>

definition onMessage_inputs ::
  "qr_solver \<Rightarrow> telemetry \<Rightarrow> error + (real list \<times> real list \<times> real list \<times> real list)" where
  "onMessage_inputs householderQr_solve j =
     (case to_vehicle (j_ptsx j) (j_ptsy j) (j_x j) (j_y j) (j_psi j) of
        Inl e \<Rightarrow> Inl e
      | Inr (ptsx_v, ptsy_v) \<Rightarrow>
          (case polyfit householderQr_solve ptsx_v ptsy_v 3 of
             Inl e \<Rightarrow> Inl e
           | Inr coeffs \<Rightarrow>
               if length coeffs \<le> 3 then Inl IndexOutOfRange
               else Inr (ptsx_v, ptsy_v, coeffs,
                         latency_state coeffs (j_speed j) (j_steering_angle j) (j_throttle j))))"

subsection \<open>The telemetry branch of the handler (lines 88-167)\<close>

definition steer_msg :: "real list \<Rightarrow> 'm MPC_scheme \<Rightarrow> real list \<Rightarrow> real list \<Rightarrow> msgJson" where
  "steer_msg vars mpc ptsx_v ptsy_v =
     (let steer_value = vars ! 6;
          throttle_value = vars ! 7
      in \<lparr> m_steering_angle = - steer_value / deg2rad 25,
           m_throttle = throttle_value,
           m_mpc_x = next_path_xs mpc,
           m_mpc_y = next_path_ys mpc,
           m_next_x = map (\<lambda>i. ptsx_v ! i) [0..<length ptsx_v],
           m_next_y = map (\<lambda>i. ptsy_v ! i) [0..<length ptsx_v] \<rparr>)"

definition onMessage_telemetry ::
  "'m Solve_fn \<Rightarrow> qr_solver \<Rightarrow> 'm MPC_scheme \<Rightarrow> telemetry \<Rightarrow>
   error + (effect list \<times> 'm MPC_scheme)" where
  "onMessage_telemetry Solve householderQr_solve mpc j =
     (case onMessage_inputs householderQr_solve j of
        Inl e \<Rightarrow> Inl e
      | Inr (ptsx_v, ptsy_v, coeffs, state) \<Rightarrow>
          (case Solve mpc state coeffs of
             Inl e \<Rightarrow> Inl e
           | Inr (vars, mpc') \<Rightarrow>
               if length vars \<le> 7 then Inl IndexOutOfRange
               else (let msg = steer_msg vars mpc' ptsx_v ptsy_v
                     in Inr ([Cout msg, Sleep_for_ms 100, Ws_send msg], mpc'))))"

subsection \<open>Eigen's solver\<close>

text \<open>
  Eigen documents that the solution of \<open>A x = b\<close> returned by \<open>solve\<close> has one entry for
  each column of \<open>A\<close>.
\<close>

definition Eigen_solve_cols :: "qr_solver \<Rightarrow> bool" where
  "Eigen_solve_cols householderQr_solve \<longleftrightarrow>
     (\<forall>A b. A \<noteq> [] \<longrightarrow> length (householderQr_solve A b) = length (hd A))"

subsection \<open>The optimizer and the Kinematic Model, from the specification\<close>

text \<open>
  Modelled from the spec: the maximum steering angle of the Horizon Configuration, which
  MPC.cpp (not among the sources) would define. Section 8 of the specification gives it as
  25 degrees, in radians.
\<close>

definition max_steer :: real where
  "max_steer = deg2rad 25"

text \<open>
  Modelled from the spec: \<open>MPC::Solve\<close>, whose body (MPC.cpp) is not among the sources.
  Section 4.3 puts box constraints on every solution: the steering angle lies in
  \<open>[-max_steer, max_steer]\<close> and the acceleration in \<open>[-1, 1]\<close>; a solve that does not
  converge fails with a signal and never returns an actuation outside the box. The first
  actuation pair is what the handler reads at positions 6 and 7.
\<close>

definition Solve_box_constraints :: "'m Solve_fn \<Rightarrow> bool" where
  "Solve_box_constraints Solve \<longleftrightarrow>
     (\<forall>mpc state coeffs vars mpc'.
        Solve mpc state coeffs = Inr (vars, mpc') \<longrightarrow>
          - max_steer \<le> vars ! 6 \<and> vars ! 6 \<le> max_steer \<and> - 1 \<le> vars ! 7 \<and> vars ! 7 \<le> 1)"

text \<open>
  The Kinematic Model in the words of section 4.1 of the specification, for comparison
  with \<open>latency_state\<close>: \<open>f\<close> is the reference polynomial, \<open>f'\<close> its derivative.
\<close>

definition spec_f :: "real list \<Rightarrow> real \<Rightarrow> real" where
  "spec_f coeffs x0 = (\<Sum>i<length coeffs. coeffs ! i * x0 ^ i)"

definition spec_f' :: "real list \<Rightarrow> real \<Rightarrow> real" where
  "spec_f' coeffs x0 = (\<Sum>i<length coeffs. real i * coeffs ! i * x0 ^ (i - 1))"

definition spec_Kinematic_Model ::
  "real list \<Rightarrow> real \<Rightarrow> real \<Rightarrow> real \<times> real \<times> real \<times> real \<times> real \<times> real \<Rightarrow> real \<times> real \<Rightarrow>
   real list" where
  "spec_Kinematic_Model coeffs dt Lf0 st act =
     (case (st, act) of ((x0, y0, psi0, v0, cte0, epsi0), (delta0, a0)) \<Rightarrow>
        [x0 + v0 * cos psi0 * dt,
         y0 + v0 * sin psi0 * dt,
         psi0 - (v0 / Lf0) * delta0 * dt,
         v0 + a0 * dt,
         spec_f coeffs x0 - y0 + v0 * sin epsi0 * dt,
         psi0 - arctan (spec_f' coeffs x0) + (- (v0 / Lf0) * delta0 * dt)])"

subsection \<open>Worked examples\<close>

text \<open>
  A stand-in for Eigen's solver in the examples: it answers with the vector \<open>c\<close>, one
  entry per column of \<open>A\<close>. It is used only at inputs where \<open>c\<close> solves \<open>A c = b\<close> exactly,
  so that it agrees there with the least-squares solution.
\<close>

definition fit_const :: "real list \<Rightarrow> qr_solver" where
  "fit_const c A b = map (\<lambda>i. if i < length c then c ! i else 0) [0..<length (hd A)]"

text \<open>The product \<open>A c\<close> that the solver fits to \<open>b\<close>.\<close>

definition mat_vec :: "MatrixXd \<Rightarrow> real list \<Rightarrow> real list" where
  "mat_vec A c = map (\<lambda>row. \<Sum>i<length row. row ! i * c ! i) A"

text \<open>Four waypoints on the line \<open>y = 1\<close>, the car at the origin heading along \<open>x\<close>.\<close>

definition tick_level :: telemetry where
  "tick_level = \<lparr> j_ptsx = [0, 1, 2, 3], j_ptsy = [1, 1, 1, 1], j_x = 0, j_y = 0, j_psi = 0,
                  j_speed = 10, j_steering_angle = 0.1, j_throttle = 0.5 \<rparr>"

text \<open>Four waypoints on the line \<open>y = x\<close>, the car driving straight.\<close>

definition tick_diagonal :: telemetry where
  "tick_diagonal = \<lparr> j_ptsx = [0, 1, 2, 3], j_ptsy = [0, 1, 2, 3], j_x = 0, j_y = 0, j_psi = 0,
                     j_speed = 10, j_steering_angle = 0, j_throttle = 0 \<rparr>"

text \<open>Five x coordinates and four y coordinates.\<close>

definition tick_mismatch :: telemetry where
  "tick_mismatch = \<lparr> j_ptsx = [0, 1, 2, 3, 4], j_ptsy = [1, 1, 1, 1], j_x = 0, j_y = 0, j_psi = 0,
                     j_speed = 10, j_steering_angle = 0.1, j_throttle = 0.5 \<rparr>"

text \<open>Four x coordinates and five y coordinates.\<close>

definition tick_more_y :: telemetry where
  "tick_more_y = \<lparr> j_ptsx = [0, 1, 2, 3], j_ptsy = [1, 1, 1, 1, 1], j_x = 0, j_y = 0, j_psi = 0,
                   j_speed = 10, j_steering_angle = 0.1, j_throttle = 0.5 \<rparr>"

text \<open>An optimizer that answers every call with the same solution and path.\<close>

definition Solve_const :: "real list \<Rightarrow> unit Solve_fn" where
  "Solve_const vars mpc state coeffs =
     Inr (vars, mpc\<lparr> next_path_xs := [1, 2], next_path_ys := [1, 1] \<rparr>)"

definition mpc0 :: MPC where
  "mpc0 = \<lparr> next_path_xs = [], next_path_ys = [] \<rparr>"

section \<open>Properties of the parts\<close>

subsection \<open>polyeval and the rows of the fit matrix\<close>

lemma polyeval_fold_sum:
  "fold (\<lambda>i result. result + cs ! i * x0 ^ i) [0..<n] r = r + (\<Sum>i<n. cs ! i * (x0::real) ^ i)"
  by (induction n arbitrary: r) (simp_all add: add.assoc)

lemma polyeval_sum: "polyeval coeffs x0 = (\<Sum>i<length coeffs. coeffs ! i * x0 ^ i)"
  by (simp add: polyeval_def polyeval_fold_sum)

lemma polyeval_at_0: "coeffs \<noteq> [] \<Longrightarrow> polyeval coeffs 0 = coeffs ! 0"
proof -
  assume ne: "coeffs \<noteq> []"
  have "(\<Sum>i<length coeffs. coeffs ! i * (0::real) ^ i) = (\<Sum>i\<in>{0}. coeffs ! i * (0::real) ^ i)"
    using ne by (intro sum.mono_neutral_right) (auto simp: power_0_left)
  then show ?thesis by (simp add: polyeval_sum)
qed

lemma length_A_row: "length (A_row xj n) = Suc n"
  by (induction n) simp_all

lemma nth_A_row: "i \<le> n \<Longrightarrow> A_row xj n ! i = xj ^ i"
proof (induction n arbitrary: i)
  case 0
  then show ?case by simp
next
  case (Suc n)
  show ?case
  proof (cases "i \<le> n")
    case True
    then show ?thesis using Suc.IH by (simp add: nth_append length_A_row)
  next
    case False
    with Suc.prems have "i = Suc n" by simp
    then show ?thesis using Suc.IH [of n] by (simp add: nth_append length_A_row)
  qed
qed

subsection \<open>The waypoint loop in closed form\<close>

lemma transform_fold:
  assumes "n \<le> length ptsx"
  shows "fold (transform_step ptsx ptsy px py psi) [0..<n]
           (Inr (replicate (length ptsx) 0, replicate (length ptsy) 0)) =
         (if n \<le> length ptsy
          then Inr (map (\<lambda>i. (ptsx ! i - px) * cos psi + (ptsy ! i - py) * sin psi) [0..<n]
                      @ replicate (length ptsx - n) 0,
                    map (\<lambda>i. (ptsy ! i - py) * cos psi - (ptsx ! i - px) * sin psi) [0..<n]
                      @ replicate (length ptsy - n) 0)
          else Inl IndexOutOfRange)"
  using assms
proof (induction n)
  case 0
  then show ?case by simp
next
  case (Suc n)
  then have le: "n \<le> length ptsx" and lt: "n < length ptsx" by simp_all
  show ?case
  proof (cases "n < length ptsy")
    case True
    have rx: "replicate (length ptsx - n) (0::real) = 0 # replicate (length ptsx - Suc n) 0"
      using lt by (simp add: Suc_diff_Suc flip: replicate_Suc)
    have ry: "replicate (length ptsy - n) (0::real) = 0 # replicate (length ptsy - Suc n) 0"
      using True by (simp add: Suc_diff_Suc flip: replicate_Suc)
    show ?thesis
      using True Suc.IH [OF le]
      by (simp add: transform_step_def Let_def list_update_append rx ry)
  next
    case False
    then show ?thesis
      using Suc.IH [OF le] by (auto simp: transform_step_def)
  qed
qed

lemma to_vehicle_eq:
  "to_vehicle ptsx ptsy px py psi =
     (if length ptsx \<le> length ptsy
      then Inr (map (\<lambda>i. (ptsx ! i - px) * cos psi + (ptsy ! i - py) * sin psi) [0..<length ptsx],
                map (\<lambda>i. (ptsy ! i - py) * cos psi - (ptsx ! i - px) * sin psi) [0..<length ptsx]
                  @ replicate (length ptsy - length ptsx) 0)
      else Inl IndexOutOfRange)"
  by (simp add: to_vehicle_def transform_fold)

subsection \<open>The handler in closed form\<close>

lemma onMessage_inputs_eq:
  "onMessage_inputs q j =
     (if length (j_ptsy j) < length (j_ptsx j) then Inl IndexOutOfRange
      else if length (j_ptsx j) \<noteq> length (j_ptsy j) \<or> length (j_ptsx j) < 4 then Inl AssertionFailed
      else (let ptsx_v = map (\<lambda>i. (j_ptsx j ! i - j_x j) * cos (j_psi j)
                                   + (j_ptsy j ! i - j_y j) * sin (j_psi j)) [0..<length (j_ptsx j)];
                ptsy_v = map (\<lambda>i. (j_ptsy j ! i - j_y j) * cos (j_psi j)
                                   - (j_ptsx j ! i - j_x j) * sin (j_psi j)) [0..<length (j_ptsx j)];
                coeffs = q (map (\<lambda>xj. A_row xj 3) ptsx_v) ptsy_v
            in if length coeffs \<le> 3 then Inl IndexOutOfRange
               else Inr (ptsx_v, ptsy_v, coeffs,
                         latency_state coeffs (j_speed j) (j_steering_angle j) (j_throttle j))))"
  by (auto simp: onMessage_inputs_def to_vehicle_eq polyfit_def Let_def)

lemma latency_state_eq:
  "latency_state coeffs v delta a =
     [v * 0.1, 0, - (v / Lf * delta * 0.1), v + a * 0.1, polyeval coeffs 0,
      - (v / Lf * delta * 0.1)
        - arctan (coeffs ! 1 + 2 * coeffs ! 2 * (v * 0.1) + 3 * coeffs ! 3 * (v * 0.1) * (v * 0.1))
        - v / Lf * delta * 0.1]"
  by (simp add: latency_state_def Let_def)

lemma onMessage_inputs_InrD:
  assumes "onMessage_inputs q j = Inr (ptsx_v, ptsy_v, coeffs, state)"
  shows "length (j_ptsy j) = length (j_ptsx j)"
    and "4 \<le> length (j_ptsx j)"
    and "ptsx_v = map (\<lambda>i. (j_ptsx j ! i - j_x j) * cos (j_psi j)
                          + (j_ptsy j ! i - j_y j) * sin (j_psi j)) [0..<length (j_ptsx j)]"
    and "ptsy_v = map (\<lambda>i. (j_ptsy j ! i - j_y j) * cos (j_psi j)
                          - (j_ptsx j ! i - j_x j) * sin (j_psi j)) [0..<length (j_ptsx j)]"
    and "coeffs = q (map (\<lambda>xj. A_row xj 3) ptsx_v) ptsy_v"
    and "3 < length coeffs"
    and "state = latency_state coeffs (j_speed j) (j_steering_angle j) (j_throttle j)"
  using assms
  by (auto simp: onMessage_inputs_eq Let_def split: if_splits)

lemma polyfit_of_inputs:
  assumes "onMessage_inputs q j = Inr (ptsx_v, ptsy_v, coeffs, state)"
  shows "polyfit q ptsx_v ptsy_v 3 = Inr coeffs"
  using onMessage_inputs_InrD [OF assms]
  by (simp add: polyfit_def)

lemma onMessage_telemetry_InrD:
  assumes "onMessage_telemetry Solve q mpc j = Inr (effects, mpc')"
  shows "\<exists>ptsx_v ptsy_v coeffs state vars.
           onMessage_inputs q j = Inr (ptsx_v, ptsy_v, coeffs, state) \<and>
           Solve mpc state coeffs = Inr (vars, mpc') \<and> 7 < length vars \<and>
           effects = [Cout (steer_msg vars mpc' ptsx_v ptsy_v), Sleep_for_ms 100,
                      Ws_send (steer_msg vars mpc' ptsx_v ptsy_v)]"
  using assms
  by (auto simp: onMessage_telemetry_def Let_def split: sum.splits prod.splits if_splits)

text \<open>Once the inputs are there, the optimizer is called on exactly that state.\<close>

lemma onMessage_telemetry_calls_Solve:
  assumes "onMessage_inputs q j = Inr (ptsx_v, ptsy_v, coeffs, state)"
  shows "onMessage_telemetry Solve q mpc j =
         (case Solve mpc state coeffs of
            Inl e \<Rightarrow> Inl e
          | Inr (vars, mpc') \<Rightarrow>
              if length vars \<le> 7 then Inl IndexOutOfRange
              else Inr ([Cout (steer_msg vars mpc' ptsx_v ptsy_v), Sleep_for_ms 100,
                         Ws_send (steer_msg vars mpc' ptsx_v ptsy_v)], mpc'))"
  using assms by (simp add: onMessage_telemetry_def Let_def split: sum.splits prod.splits)

lemma deg2rad_25_pos: "0 < deg2rad 25"
  by (simp add: deg2rad_def)

lemma steer_msg_sel:
  "m_steering_angle (steer_msg vars mpc xv yv) = - (vars ! 6) / deg2rad 25"
  "m_throttle (steer_msg vars mpc xv yv) = vars ! 7"
  "m_mpc_x (steer_msg vars mpc xv yv) = next_path_xs mpc"
  "m_mpc_y (steer_msg vars mpc xv yv) = next_path_ys mpc"
  by (simp_all add: steer_msg_def)

lemma normalised_steer_bounded:
  assumes "- deg2rad 25 \<le> d" and "d \<le> deg2rad 25"
  shows "- 1 \<le> - d / deg2rad 25" and "- d / deg2rad 25 \<le> 1"
  using assms deg2rad_25_pos
  by (simp_all add: field_simps)

subsection \<open>The worked examples evaluated\<close>

lemma Solve_const_box:
  "Solve_box_constraints (Solve_const [0, 0, 0, 0, 0, 0, 0.2, 0.5])"
proof -
  have "(36::real) \<le> 25 * pi" using pi_ge_two by linarith
  then show ?thesis
    by (simp add: Solve_box_constraints_def Solve_const_def max_steer_def deg2rad_def)
qed

lemma tick_level_inputs:
  "onMessage_inputs (fit_const [1, 0, 0, 0]) tick_level =
   Inr ([0, 1, 2, 3], [1, 1, 1, 1], [1, 0, 0, 0], [1, 0, - (10 / 267), 201 / 20, 1, - (20 / 267)])"
  by (simp add: onMessage_inputs_eq tick_level_def fit_const_def latency_state_eq polyeval_at_0
      Lf_def Let_def length_A_row upt_conv_Cons)

lemma tick_level_reply:
  "onMessage_telemetry (Solve_const [0, 0, 0, 0, 0, 0, 0.2, 0.5]) (fit_const [1, 0, 0, 0]) mpc0 tick_level =
   Inr ([Cout (steer_msg [0, 0, 0, 0, 0, 0, 0.2, 0.5]
                 \<lparr> next_path_xs = [1, 2], next_path_ys = [1, 1] \<rparr> [0, 1, 2, 3] [1, 1, 1, 1]),
         Sleep_for_ms 100,
         Ws_send (steer_msg [0, 0, 0, 0, 0, 0, 0.2, 0.5]
                 \<lparr> next_path_xs = [1, 2], next_path_ys = [1, 1] \<rparr> [0, 1, 2, 3] [1, 1, 1, 1])],
        \<lparr> next_path_xs = [1, 2], next_path_ys = [1, 1] \<rparr>)"
  by (simp add: onMessage_telemetry_def tick_level_inputs Solve_const_def mpc0_def Let_def)

subsection \<open>Further facts used by the claims\<close>

lemma fit_const_cols: "Eigen_solve_cols (fit_const c)"
  by (simp add: Eigen_solve_cols_def fit_const_def)

text \<open>
  The rows of the fit matrix are \<open>1, x, x^2, x^3\<close>, so the product of the matrix with a
  coefficient vector is \<open>polyeval\<close> of that vector at each waypoint.
\<close>

lemma A_row_3: "A_row xj 3 = [1, xj, xj ^ 2, xj ^ 3]"
  by (simp add: eval_nat_numeral nth_append length_A_row)

lemma row_times_coeffs:
  assumes "length coeffs = 4"
  shows "(\<Sum>i<length (A_row xj 3). A_row xj 3 ! i * coeffs ! i) = polyeval coeffs xj"
  using assms
  by (simp add: polyeval_sum length_A_row nth_A_row lessThan_Suc eval_nat_numeral mult.commute)

lemma mat_vec_fit_matrix:
  assumes "length coeffs = 4"
  shows "mat_vec (map (\<lambda>xj. A_row xj 3) xs) coeffs = map (polyeval coeffs) xs"
  using row_times_coeffs [OF assms]
  by (simp add: mat_vec_def)

lemma fit_level_exact:
  "mat_vec (map (\<lambda>xj. A_row xj 3) [0, 1, 2, 3]) [1, 0, 0, 0] = [1, 1, 1, 1]"
  by (simp add: mat_vec_def length_A_row lessThan_Suc eval_nat_numeral)

lemma fit_diagonal_exact:
  "mat_vec (map (\<lambda>xj. A_row xj 3) [0, 1, 2, 3]) [0, 1, 0, 0] = [0, 1, 2, 3]"
  by (simp add: mat_vec_def length_A_row lessThan_Suc eval_nat_numeral)

lemma tick_diagonal_inputs:
  "onMessage_inputs (fit_const [0, 1, 0, 0]) tick_diagonal =
   Inr ([0, 1, 2, 3], [0, 1, 2, 3], [0, 1, 0, 0], [1, 0, 0, 10, 0, - (pi / 4)])"
  by (simp add: onMessage_inputs_eq tick_diagonal_def fit_const_def latency_state_eq polyeval_at_0
      Lf_def Let_def length_A_row upt_conv_Cons arctan_one)

lemma polyfit_InrD:
  assumes "polyfit q xvals yvals order = Inr c"
  shows "1 \<le> order" and "order \<le> int (length xvals) - 1" and "length xvals = length yvals"
  using assms by (auto simp: polyfit_def split: if_splits)

lemma onMessage_telemetry_Inl:
  "onMessage_inputs q j = Inl e \<Longrightarrow> onMessage_telemetry Solve q mpc j = Inl e"
  by (simp add: onMessage_telemetry_def)

section \<open>The claims\<close>

text \<open>
  Claim C1. If the optimizer keeps its box constraints (steering angle within 25 degrees
  either way, acceleration within \<open>[-1, 1]\<close>), then on every tick that sends a reply the
  steering value and the throttle value of the message both lie in \<open>[-1, 1]\<close>, whatever
  the telemetry was.
\<close>

theorem sent_steer_and_throttle_bounded:
  assumes "Solve_box_constraints Solve"
    and "onMessage_telemetry Solve q mpc j = Inr (effects, mpc')"
    and "Ws_send msg \<in> set effects"
  shows "- 1 \<le> m_steering_angle msg \<and> m_steering_angle msg \<le> 1 \<and>
         - 1 \<le> m_throttle msg \<and> m_throttle msg \<le> 1"
proof -
  from onMessage_telemetry_InrD [OF assms(2)]
  obtain ptsx_v ptsy_v coeffs state vars where
    s: "Solve mpc state coeffs = Inr (vars, mpc')" and
    e: "effects = [Cout (steer_msg vars mpc' ptsx_v ptsy_v), Sleep_for_ms 100,
                   Ws_send (steer_msg vars mpc' ptsx_v ptsy_v)]"
    by blast
  from assms(3) e have m: "msg = steer_msg vars mpc' ptsx_v ptsy_v" by simp
  from assms(1) s have b: "- deg2rad 25 \<le> vars ! 6" "vars ! 6 \<le> deg2rad 25"
      "- 1 \<le> vars ! 7" "vars ! 7 \<le> 1"
    unfolding Solve_box_constraints_def max_steer_def by blast+
  show ?thesis
    using normalised_steer_bounded [OF b(1,2)] b(3,4)
    by (simp add: m steer_msg_sel)
qed

theorem sent_steer_and_throttle_bounded_witness:
  "Solve_box_constraints (Solve_const [0, 0, 0, 0, 0, 0, 0.2, 0.5]) \<and>
   onMessage_telemetry (Solve_const [0, 0, 0, 0, 0, 0, 0.2, 0.5]) (fit_const [1, 0, 0, 0]) mpc0 tick_level =
   Inr ([Cout (steer_msg [0, 0, 0, 0, 0, 0, 0.2, 0.5]
                 \<lparr> next_path_xs = [1, 2], next_path_ys = [1, 1] \<rparr> [0, 1, 2, 3] [1, 1, 1, 1]),
         Sleep_for_ms 100,
         Ws_send (steer_msg [0, 0, 0, 0, 0, 0, 0.2, 0.5]
                 \<lparr> next_path_xs = [1, 2], next_path_ys = [1, 1] \<rparr> [0, 1, 2, 3] [1, 1, 1, 1])],
        \<lparr> next_path_xs = [1, 2], next_path_ys = [1, 1] \<rparr>) \<and>
   - 1 \<le> - (0.2 :: real) / deg2rad 25 \<and> - (0.2 :: real) / deg2rad 25 \<le> 1 \<and>
   - 1 \<le> (0.5 :: real) \<and> (0.5 :: real) \<le> 1"
  using sent_steer_and_throttle_bounded [OF Solve_const_box tick_level_reply, of "steer_msg [0, 0, 0, 0, 0, 0, 0.2, 0.5]
                 \<lparr> next_path_xs = [1, 2], next_path_ys = [1, 1] \<rparr> [0, 1, 2, 3] [1, 1, 1, 1]"]
    Solve_const_box tick_level_reply
  by (simp add: steer_msg_sel)

text \<open>
  Claim C2. On every tick that gets as far as the optimizer, the first four components
  of the state handed to it are one step of the specification's Kinematic Model, with
  \<open>dt = 0.1\<close> and \<open>Lf = 2.67\<close>, from the vehicle-frame state \<open>x = 0\<close>, \<open>y = 0\<close>, \<open>psi = 0\<close>
  and the reported speed, under the reported steering angle and throttle. The cte and
  epsi of the starting state do not enter these four components.
\<close>

theorem projection_is_one_kinematic_step:
  assumes "onMessage_inputs q j = Inr (ptsx_v, ptsy_v, coeffs, state)"
  shows "take 4 state =
         take 4 (spec_Kinematic_Model coeffs 0.1 2.67 (0, 0, 0, j_speed j, cte, epsi)
                   (j_steering_angle j, j_throttle j))"
  using onMessage_inputs_InrD(7) [OF assms]
  by (simp add: latency_state_eq spec_Kinematic_Model_def Lf_def)

theorem projection_is_one_kinematic_step_witness:
  "onMessage_inputs (fit_const [1, 0, 0, 0]) tick_level =
     Inr ([0, 1, 2, 3], [1, 1, 1, 1], [1, 0, 0, 0], [1, 0, - (10 / 267), 201 / 20, 1, - (20 / 267)]) \<and>
   take 4 [1, 0, - (10 / 267), 201 / 20, 1, - (20 / 267)] =
   take 4 (spec_Kinematic_Model [1, 0, 0, 0] 0.1 2.67 (0, 0, 0, 10, 1, 0) (0.1, 0.5))"
  using projection_is_one_kinematic_step [OF tick_level_inputs, of 1 0] tick_level_inputs
  by (simp add: tick_level_def)

text \<open>
  Claim C3. The specification's model gives \<open>cte' = f(x) - y + v * sin(epsi) * dt\<close>. At the
  tick with the waypoints on the line \<open>y = x\<close> and speed 10, where the fit is
  \<open>[0, 1, 0, 0]\<close> and the heading error before the projection is \<open>- arctan 1\<close>, the handler
  hands the optimizer a cross-track error of 0, and the model's formula gives
  \<open>- sqrt 2 / 2\<close>: line 127 takes the sine of \<open>psi_v\<close>, not of \<open>epsi\<close>.
\<close>

theorem cte_projection_misses_heading_error_term:
  "onMessage_inputs (fit_const [0, 1, 0, 0]) tick_diagonal =
     Inr ([0, 1, 2, 3], [0, 1, 2, 3], [0, 1, 0, 0], [1, 0, 0, 10, 0, - (pi / 4)]) \<and>
   [1, 0, 0, 10, 0, - (pi / 4)] ! 4 = 0 \<and>
   spec_Kinematic_Model [0, 1, 0, 0] 0.1 Lf
     (0, 0, 0, 10, spec_f [0, 1, 0, 0] 0 - 0, 0 - arctan (spec_f' [0, 1, 0, 0] 0)) (0, 0) ! 4
   = - (sqrt 2 / 2)"
  by (simp add: tick_diagonal_inputs spec_Kinematic_Model_def spec_f_def spec_f'_def
      lessThan_Suc eval_nat_numeral arctan_one sin_45)

text \<open>
  Claim C4. The specification's model gives \<open>epsi' = psi - atan(f'(x)) - (v / Lf) * delta * dt\<close>,
  with the actuation term once. At the tick with the waypoints on the line \<open>y = 1\<close>, speed
  10 and steering angle 0.1, where the fit is \<open>[1, 0, 0, 0]\<close>, the handler hands the
  optimizer a heading error of \<open>- 20 / 267\<close>, and the model's formula gives \<open>- 10 / 267\<close>:
  line 128 starts from \<open>late_psi\<close>, which holds the actuation term already, and subtracts
  the term again.
\<close>

theorem epsi_projection_counts_actuation_twice:
  "onMessage_inputs (fit_const [1, 0, 0, 0]) tick_level =
     Inr ([0, 1, 2, 3], [1, 1, 1, 1], [1, 0, 0, 0], [1, 0, - (10 / 267), 201 / 20, 1, - (20 / 267)]) \<and>
   [1, 0, - (10 / 267), 201 / 20, 1, - (20 / 267 :: real)] ! 5 = - (20 / 267) \<and>
   spec_Kinematic_Model [1, 0, 0, 0] 0.1 Lf
     (0, 0, 0, 10, spec_f [1, 0, 0, 0] 0 - 0, 0 - arctan (spec_f' [1, 0, 0, 0] 0)) (0.1, 0.5) ! 5
   = - (10 / 267)"
  by (simp add: tick_level_inputs spec_Kinematic_Model_def spec_f_def spec_f'_def
      lessThan_Suc eval_nat_numeral Lf_def)

text \<open>
  Claim C5. On every tick that sends a reply, the message sent is read off the vector
  that \<open>Solve\<close> returned: its steering value is \<open>- vars[6] / deg2rad(25)\<close>, its throttle
  value is \<open>vars[7]\<close> as it is. The divisor is positive, so the sign is reversed, and a
  \<open>vars[6]\<close> within 25 degrees either way gives a steering value in \<open>[-1, 1]\<close>.
\<close>

theorem command_is_read_of_solution:
  assumes "onMessage_telemetry Solve q mpc j = Inr (effects, mpc')"
  shows "\<exists>ptsx_v ptsy_v coeffs state vars msg.
           onMessage_inputs q j = Inr (ptsx_v, ptsy_v, coeffs, state) \<and>
           Solve mpc state coeffs = Inr (vars, mpc') \<and>
           7 < length vars \<and>
           effects = [Cout msg, Sleep_for_ms 100, Ws_send msg] \<and>
           m_steering_angle msg = - (vars ! 6) / deg2rad 25 \<and>
           m_throttle msg = vars ! 7 \<and>
           0 < deg2rad 25 \<and>
           (\<bar>vars ! 6\<bar> \<le> deg2rad 25 \<longrightarrow> \<bar>m_steering_angle msg\<bar> \<le> 1)"
proof -
  from onMessage_telemetry_InrD [OF assms]
  obtain ptsx_v ptsy_v coeffs state vars where
    h: "onMessage_inputs q j = Inr (ptsx_v, ptsy_v, coeffs, state)"
       "Solve mpc state coeffs = Inr (vars, mpc')" "7 < length vars"
       "effects = [Cout (steer_msg vars mpc' ptsx_v ptsy_v), Sleep_for_ms 100,
                   Ws_send (steer_msg vars mpc' ptsx_v ptsy_v)]"
    by blast
  have b: "\<bar>vars ! 6\<bar> \<le> deg2rad 25 \<longrightarrow> \<bar>- (vars ! 6) / deg2rad 25\<bar> \<le> 1"
    using deg2rad_25_pos by (simp add: field_simps)
  show ?thesis
    using h b deg2rad_25_pos
    by (intro exI [of _ ptsx_v] exI [of _ ptsy_v] exI [of _ coeffs] exI [of _ state]
        exI [of _ vars] exI [of _ "steer_msg vars mpc' ptsx_v ptsy_v"])
      (simp add: steer_msg_sel)
qed

theorem command_is_read_of_solution_witness:
  "onMessage_telemetry (Solve_const [0, 0, 0, 0, 0, 0, 0.2, 0.5]) (fit_const [1, 0, 0, 0]) mpc0 tick_level =
   Inr ([Cout (steer_msg [0, 0, 0, 0, 0, 0, 0.2, 0.5]
                 \<lparr> next_path_xs = [1, 2], next_path_ys = [1, 1] \<rparr> [0, 1, 2, 3] [1, 1, 1, 1]),
         Sleep_for_ms 100,
         Ws_send (steer_msg [0, 0, 0, 0, 0, 0, 0.2, 0.5]
                 \<lparr> next_path_xs = [1, 2], next_path_ys = [1, 1] \<rparr> [0, 1, 2, 3] [1, 1, 1, 1])],
        \<lparr> next_path_xs = [1, 2], next_path_ys = [1, 1] \<rparr>) \<and>
   (\<exists>msg. Ws_send msg \<in> set [Cout (steer_msg [0, 0, 0, 0, 0, 0, 0.2, 0.5]
                 \<lparr> next_path_xs = [1, 2], next_path_ys = [1, 1] \<rparr> [0, 1, 2, 3] [1, 1, 1, 1]),
         Sleep_for_ms 100,
         Ws_send (steer_msg [0, 0, 0, 0, 0, 0, 0.2, 0.5]
                 \<lparr> next_path_xs = [1, 2], next_path_ys = [1, 1] \<rparr> [0, 1, 2, 3] [1, 1, 1, 1])] \<and>
     m_steering_angle msg = - 0.2 / deg2rad 25 \<and> m_throttle msg = 0.5)"
  using command_is_read_of_solution [OF tick_level_reply] tick_level_reply
  by (auto simp: tick_level_inputs Solve_const_def mpc0_def)

text \<open>
  Claim C6. Given that Eigen's \<open>solve\<close> returns one entry per column, on every tick that
  gets as far as the optimizer the coefficient vector has exactly 4 entries. It is the
  order-3 \<open>polyfit\<close> of this tick's waypoints moved into the vehicle's frame: the solver's
  answer for the matrix with the rows \<open>1, x, x^2, x^3\<close> of the waypoints' x coordinates and
  for their y coordinates. The product of that matrix with the coefficients, which the
  solver fits to the y coordinates, is \<open>polyeval\<close> of the coefficients at each waypoint, so
  the fit produces the coefficients in the order in which \<open>polyeval\<close> reads them: lowest
  degree first, \<open>polyeval\<close> returning the sum of \<open>coeffs[i] * x^i\<close>.
\<close>

theorem coeffs_cubic_lowest_degree_first:
  assumes "Eigen_solve_cols q"
    and "onMessage_inputs q j = Inr (ptsx_v, ptsy_v, coeffs, state)"
  shows "length coeffs = 4 \<and>
         polyfit q ptsx_v ptsy_v 3 = Inr coeffs \<and>
         coeffs = q (map (\<lambda>xj. [1, xj, xj ^ 2, xj ^ 3]) ptsx_v) ptsy_v \<and>
         mat_vec (map (\<lambda>xj. [1, xj, xj ^ 2, xj ^ 3]) ptsx_v) coeffs = map (polyeval coeffs) ptsx_v \<and>
         ptsx_v = map (\<lambda>i. (j_ptsx j ! i - j_x j) * cos (j_psi j)
                            + (j_ptsy j ! i - j_y j) * sin (j_psi j)) [0..<length (j_ptsx j)] \<and>
         ptsy_v = map (\<lambda>i. (j_ptsy j ! i - j_y j) * cos (j_psi j)
                            - (j_ptsx j ! i - j_x j) * sin (j_psi j)) [0..<length (j_ptsx j)] \<and>
         polyeval coeffs x0 = (\<Sum>i<4. coeffs ! i * x0 ^ i) \<and>
         polyeval cs x0 = (\<Sum>i<length cs. cs ! i * x0 ^ i)"
proof -
  note d = onMessage_inputs_InrD [OF assms(2)]
  from d(2,3) have ne: "map (\<lambda>xj. A_row xj 3) ptsx_v \<noteq> []" by auto
  then have "hd (map (\<lambda>xj. A_row xj 3) ptsx_v) = A_row (hd ptsx_v) 3"
    by (simp add: hd_map)
  with assms(1) ne d(5) have len: "length coeffs = 4"
    unfolding Eigen_solve_cols_def by (simp add: length_A_row)
  have fit: "coeffs = q (map (\<lambda>xj. [1, xj, xj ^ 2, xj ^ 3]) ptsx_v) ptsy_v"
    using d(5) by (simp add: A_row_3)
  have rows: "mat_vec (map (\<lambda>xj. [1, xj, xj ^ 2, xj ^ 3]) ptsx_v) coeffs = map (polyeval coeffs) ptsx_v"
    using mat_vec_fit_matrix [OF len, of ptsx_v] by (simp add: A_row_3)
  have pe: "polyeval coeffs x0 = (\<Sum>i<4. coeffs ! i * x0 ^ i)"
    using len by (simp add: polyeval_sum)
  show ?thesis
    using len fit rows pe d(3,4) polyfit_of_inputs [OF assms(2)] polyeval_sum [of cs x0]
    by blast
qed

theorem coeffs_cubic_lowest_degree_first_witness:
  "Eigen_solve_cols (fit_const [1, 0, 0, 0]) \<and>
   onMessage_inputs (fit_const [1, 0, 0, 0]) tick_level =
     Inr ([0, 1, 2, 3], [1, 1, 1, 1], [1, 0, 0, 0], [1, 0, - (10 / 267), 201 / 20, 1, - (20 / 267)]) \<and>
   length [1, 0, 0, 0 :: real] = 4 \<and>
   polyfit (fit_const [1, 0, 0, 0]) [0, 1, 2, 3] [1, 1, 1, 1] 3 = Inr [1, 0, 0, 0] \<and>
   [1, 0, 0, 0] = fit_const [1, 0, 0, 0] (map (\<lambda>xj. [1, xj, xj ^ 2, xj ^ 3]) [0, 1, 2, 3]) [1, 1, 1, 1] \<and>
   mat_vec (map (\<lambda>xj. [1, xj, xj ^ 2, xj ^ 3]) [0, 1, 2, 3]) [1, 0, 0, 0] =
     map (polyeval [1, 0, 0, 0]) [0, 1, 2, 3] \<and>
   polyeval [1, 0, 0, 0] 2 = (\<Sum>i<4. [1, 0, 0, 0] ! i * 2 ^ i) \<and>
   polyeval [5, 0, 1] 2 = 9"
proof -
  note w = coeffs_cubic_lowest_degree_first [OF fit_const_cols tick_level_inputs, of 2 "[5, 0, 1]"]
  from w have a: "length [1, 0, 0, 0 :: real] = 4"
    and b: "polyfit (fit_const [1, 0, 0, 0]) [0, 1, 2, 3] [1, 1, 1, 1] 3 = Inr [1, 0, 0, 0]"
    and b1: "[1, 0, 0, 0] = fit_const [1, 0, 0, 0] (map (\<lambda>xj. [1, xj, xj ^ 2, xj ^ 3]) [0, 1, 2, 3]) [1, 1, 1, 1]"
    and b2: "mat_vec (map (\<lambda>xj. [1, xj, xj ^ 2, xj ^ 3]) [0, 1, 2, 3]) [1, 0, 0, 0] =
     map (polyeval [1, 0, 0, 0]) [0, 1, 2, 3]"
    and c: "polyeval [1, 0, 0, 0] 2 = (\<Sum>i<4. [1, 0, 0, 0] ! i * 2 ^ i)"
    and d: "polyeval [5, 0, 1] 2 = (\<Sum>i<length [5, 0, 1 :: real]. [5, 0, 1] ! i * 2 ^ i)"
    by blast+
  from d have "polyeval [5, 0, 1] 2 = 9"
    by (simp add: lessThan_Suc eval_nat_numeral)
  with a b b1 b2 c show ?thesis
    using fit_const_cols tick_level_inputs by blast
qed

text \<open>
  Claim C7. On every tick that gets as far as the optimizer, the state has exactly 6
  components, in the order x, y, psi, v, cte, epsi, measured in the vehicle's own frame:
  position and heading start from 0, whatever the reported map position and heading are.
  The state is computed from this tick's telemetry only.
\<close>

theorem state_has_six_components_in_vehicle_frame:
  assumes "onMessage_inputs q j = Inr (ptsx_v, ptsy_v, coeffs, state)"
  shows "length state = 6 \<and>
         state ! 0 = 0 + j_speed j * cos 0 * 0.1 \<and>
         state ! 1 = 0 + j_speed j * sin 0 * 0.1 \<and>
         state ! 2 = 0 - j_speed j / Lf * j_steering_angle j * 0.1 \<and>
         state ! 3 = j_speed j + j_throttle j * 0.1 \<and>
         state ! 4 = polyeval coeffs 0 - 0 \<and>
         state ! 5 = state ! 2 - arctan (coeffs ! 1 + 2 * coeffs ! 2 * state ! 0
                                         + 3 * coeffs ! 3 * state ! 0 * state ! 0)
                     - j_speed j / Lf * j_steering_angle j * 0.1"
  using onMessage_inputs_InrD(7) [OF assms]
  by (simp add: latency_state_eq)

theorem state_has_six_components_in_vehicle_frame_witness:
  "onMessage_inputs (fit_const [1, 0, 0, 0]) tick_level =
     Inr ([0, 1, 2, 3], [1, 1, 1, 1], [1, 0, 0, 0], [1, 0, - (10 / 267), 201 / 20, 1, - (20 / 267)]) \<and>
   length [1, 0, - (10 / 267), 201 / 20, 1, - (20 / 267 :: real)] = 6 \<and>
   (1 :: real) = 0 + 10 * cos 0 * 0.1 \<and>
   (0 :: real) = 0 + 10 * sin 0 * 0.1 \<and>
   - (10 / 267) = 0 - 10 / Lf * 0.1 * 0.1 \<and>
   (201 / 20 :: real) = 10 + 0.5 * 0.1 \<and>
   1 = polyeval [1, 0, 0, 0] 0 - 0 \<and>
   - (20 / 267) = - (10 / 267) - arctan 0 - 10 / Lf * 0.1 * 0.1"
  using state_has_six_components_in_vehicle_frame [OF tick_level_inputs] tick_level_inputs
  by (simp add: tick_level_def Lf_def)

text \<open>
  Claim C8. On every tick that sends a reply, what the handler does after the optimizer
  has returned is, in this order: print the message, sleep for 100 milliseconds, send the
  same message. The state given to the optimizer was projected over a latency of 0.1
  seconds before, so the program accounts for the delay twice.
\<close>

theorem sleep_between_command_and_send:
  assumes "onMessage_telemetry Solve q mpc j = Inr (effects, mpc')"
  shows "\<exists>ptsx_v ptsy_v coeffs state vars msg.
           onMessage_inputs q j = Inr (ptsx_v, ptsy_v, coeffs, state) \<and>
           Solve mpc state coeffs = Inr (vars, mpc') \<and>
           msg = steer_msg vars mpc' ptsx_v ptsy_v \<and>
           effects = [Cout msg, Sleep_for_ms 100, Ws_send msg] \<and>
           take 4 state = [0 + j_speed j * cos 0 * 0.1,
                           0 + j_speed j * sin 0 * 0.1,
                           0 - j_speed j / Lf * j_steering_angle j * 0.1,
                           j_speed j + j_throttle j * 0.1]"
proof -
  from onMessage_telemetry_InrD [OF assms]
  obtain ptsx_v ptsy_v coeffs state vars where
    h: "onMessage_inputs q j = Inr (ptsx_v, ptsy_v, coeffs, state)"
       "Solve mpc state coeffs = Inr (vars, mpc')"
       "effects = [Cout (steer_msg vars mpc' ptsx_v ptsy_v), Sleep_for_ms 100,
                   Ws_send (steer_msg vars mpc' ptsx_v ptsy_v)]"
    by blast
  have "take 4 state = [0 + j_speed j * cos 0 * 0.1,
                           0 + j_speed j * sin 0 * 0.1,
                           0 - j_speed j / Lf * j_steering_angle j * 0.1,
                           j_speed j + j_throttle j * 0.1]"
    using onMessage_inputs_InrD(7) [OF h(1)] by (simp add: latency_state_eq)
  with h show ?thesis by blast
qed

theorem sleep_between_command_and_send_witness:
  "onMessage_telemetry (Solve_const [0, 0, 0, 0, 0, 0, 0.2, 0.5]) (fit_const [1, 0, 0, 0]) mpc0 tick_level =
   Inr ([Cout (steer_msg [0, 0, 0, 0, 0, 0, 0.2, 0.5]
                 \<lparr> next_path_xs = [1, 2], next_path_ys = [1, 1] \<rparr> [0, 1, 2, 3] [1, 1, 1, 1]),
         Sleep_for_ms 100,
         Ws_send (steer_msg [0, 0, 0, 0, 0, 0, 0.2, 0.5]
                 \<lparr> next_path_xs = [1, 2], next_path_ys = [1, 1] \<rparr> [0, 1, 2, 3] [1, 1, 1, 1])],
        \<lparr> next_path_xs = [1, 2], next_path_ys = [1, 1] \<rparr>) \<and>
   take 4 [1, 0, - (10 / 267), 201 / 20, 1, - (20 / 267)] =
     [0 + 10 * cos 0 * 0.1, 0 + 10 * sin 0 * 0.1, 0 - 10 / Lf * 0.1 * 0.1, 10 + 0.5 * 0.1]"
  using sleep_between_command_and_send [OF tick_level_reply] tick_level_reply
  by (auto simp: tick_level_inputs tick_level_def Lf_def)

text \<open>
  Claim C9. On every tick that gets as far as the optimizer, the cross-track error in the
  state is the one from before the projection, \<open>polyeval(coeffs, 0) - 0\<close>, which is
  \<open>coeffs[0]\<close>: the correction \<open>v * sin(psi_v) * latency\<close> is 0, since \<open>psi_v\<close> is 0.
\<close>

theorem latency_leaves_cte_unchanged:
  assumes "onMessage_inputs q j = Inr (ptsx_v, ptsy_v, coeffs, state)"
  shows "state ! 4 = polyeval coeffs 0 - 0 \<and> state ! 4 = coeffs ! 0"
proof -
  from onMessage_inputs_InrD(6) [OF assms] have "coeffs \<noteq> []" by auto
  then show ?thesis
    using onMessage_inputs_InrD(7) [OF assms]
    by (simp add: latency_state_eq polyeval_at_0)
qed

theorem latency_leaves_cte_unchanged_witness:
  "onMessage_inputs (fit_const [1, 0, 0, 0]) tick_level =
     Inr ([0, 1, 2, 3], [1, 1, 1, 1], [1, 0, 0, 0], [1, 0, - (10 / 267), 201 / 20, 1, - (20 / 267)]) \<and>
   [1, 0, - (10 / 267), 201 / 20, 1, - (20 / 267)] ! 4 = polyeval [1, 0, 0, 0] 0 - 0 \<and>
   [1, 0, - (10 / 267), 201 / 20, 1, - (20 / 267 :: real)] ! 4 = [1, 0, 0, 0] ! 0"
  using latency_leaves_cte_unchanged [OF tick_level_inputs] tick_level_inputs
  by simp

text \<open>
  Claim C10. A message with unequal numbers of coordinates should fail the size assertion
  of \<open>polyfit\<close>. With five x coordinates and four y coordinates it does not get there: the
  waypoint loop runs over \<open>ptsx.size()\<close> and indexes \<open>ptsy\<close> and \<open>ptsy_v\<close> out of range at
  \<open>i = 4\<close>, before \<open>polyfit\<close> is called. With four x coordinates and five y coordinates the
  loop stays in range and the assertion of \<open>polyfit\<close> is what ends the tick.
\<close>

theorem mismatch_fails_before_polyfit:
  "length (j_ptsx tick_mismatch) = 5 \<and> length (j_ptsy tick_mismatch) = 4 \<and>
   to_vehicle (j_ptsx tick_mismatch) (j_ptsy tick_mismatch) (j_x tick_mismatch) (j_y tick_mismatch)
     (j_psi tick_mismatch) = Inl IndexOutOfRange \<and>
   onMessage_inputs (fit_const [1, 0, 0, 0]) tick_mismatch = Inl IndexOutOfRange \<and>
   onMessage_inputs (fit_const [1, 0, 0, 0]) tick_mismatch \<noteq> Inl AssertionFailed \<and>
   length (j_ptsx tick_more_y) = 4 \<and> length (j_ptsy tick_more_y) = 5 \<and>
   onMessage_inputs (fit_const [1, 0, 0, 0]) tick_more_y = Inl AssertionFailed"
  by (simp add: tick_mismatch_def tick_more_y_def to_vehicle_eq onMessage_inputs_eq)

end
